theory Spec2Isabelle
  imports Complex_Main "HOL-Library.Word"
begin

section \<open>Data model (include/ieee754\_fpu.h)\<close>

text \<open>
  The C enumerations are passed around as plain integers, so a caller can hand any
  integer to the API. The enumerators are named constants of type \<open>int\<close>, and every
  \<open>switch\<close> of the source is an if-chain over them, in the order of its \<open>case\<close> labels,
  ending in the \<open>default\<close> branch (or in "do nothing" where the source has none).
\<close>

definition IEEE754_ROUND_TONEAREST :: int where "IEEE754_ROUND_TONEAREST = 0"
definition IEEE754_ROUND_DOWNWARD :: int where "IEEE754_ROUND_DOWNWARD = 1"
definition IEEE754_ROUND_UPWARD :: int where "IEEE754_ROUND_UPWARD = 2"
definition IEEE754_ROUND_TOWARDZERO :: int where "IEEE754_ROUND_TOWARDZERO = 3"

definition IEEE754_EXCEPTION_INVALID :: int where "IEEE754_EXCEPTION_INVALID = 0"
definition IEEE754_EXCEPTION_DIVBYZERO :: int where "IEEE754_EXCEPTION_DIVBYZERO = 1"
definition IEEE754_EXCEPTION_OVERFLOW :: int where "IEEE754_EXCEPTION_OVERFLOW = 2"
definition IEEE754_EXCEPTION_UNDERFLOW :: int where "IEEE754_EXCEPTION_UNDERFLOW = 3"
definition IEEE754_EXCEPTION_INEXACT :: int where "IEEE754_EXCEPTION_INEXACT = 4"

text \<open>The struct \<open>IEEE754Exceptions\<close> returned by the two snapshot functions.\<close>

record IEEE754Exceptions =
  ex_invalid :: "8 word"
  ex_divByZero :: "8 word"
  ex_overflow :: "8 word"
  ex_underflow :: "8 word"
  ex_inexact :: "8 word"

text \<open>The struct \<open>ThreadExceptionState\<close> of tls\_exceptions.c: five \<open>uint8_t\<close> fields.\<close>

record ThreadExceptionState =
  invalid :: "8 word"
  divByZero :: "8 word"
  overflow :: "8 word"
  underflow :: "8 word"
  inexact :: "8 word"

subsection \<open>The floating-point environment of \<open>fenv.h\<close>\<close>

text \<open>
  The macros of \<open>fenv.h\<close> belong to the C library, not to this repository. The C
  standard makes the rounding-direction macros distinct integer constants (they are the
  \<open>case\<close> labels of one \<open>switch\<close>), and the exception macros distinct bits, so that a
  status word is a set of exceptions. A native rounding value that is none of the four
  macros (a platform extension, or the negative value \<open>fegetround\<close> returns when the
  direction cannot be determined) is \<open>FE_OTHER k\<close>; a platform exception beyond the five
  standard ones is \<open>FE_OTHER_EXCEPT k\<close>.
\<close>

datatype fe_round = FE_TONEAREST | FE_DOWNWARD | FE_UPWARD | FE_TOWARDZERO | FE_OTHER int

datatype fe_except =
  FE_INVALID | FE_DIVBYZERO | FE_OVERFLOW | FE_UNDERFLOW | FE_INEXACT | FE_OTHER_EXCEPT nat

definition FE_ALL_EXCEPT :: "fe_except set" where
  "FE_ALL_EXCEPT = UNIV"

text \<open>
  What one thread owns: the value stored under \<open>exception_key\<close> for it
  (\<open>None\<close> is the null pointer \<open>pthread_getspecific\<close> returns before the first access),
  and its floating-point environment (status flags and rounding direction), which has
  thread storage duration in C.
\<close>

record thread_ctx =
  tls_state :: "ThreadExceptionState option"
  fe_flags :: "fe_except set"
  fe_rounding :: fe_round

section \<open>Software exception store (tls\_exceptions.c)\<close>

text \<open>What \<open>calloc(1, sizeof(ThreadExceptionState))\<close> yields: every field zero.\<close>

definition zero_state :: ThreadExceptionState where
  "zero_state = \<lparr>invalid = 0, divByZero = 0, overflow = 0, underflow = 0, inexact = 0\<rparr>"

text \<open>
  \<open>get_thread_state\<close>: the state stored for the calling thread, allocated zeroed and
  stored on the first access. The allocation is taken to succeed. The functions below
  write through the returned pointer, which is the stored one: the model writes the
  updated struct back into \<open>tls_state\<close>.
\<close>

definition get_thread_state :: "thread_ctx \<Rightarrow> ThreadExceptionState \<times> thread_ctx" where
  "get_thread_state c =
     (case tls_state c of
        Some st \<Rightarrow> (st, c)
      | None \<Rightarrow> (zero_state, c\<lparr>tls_state := Some zero_state\<rparr>))"

definition ieee754_raise_exception :: "int \<Rightarrow> thread_ctx \<Rightarrow> thread_ctx" where
  "ieee754_raise_exception flag c =
     (let (st, c1) = get_thread_state c in
      if flag = IEEE754_EXCEPTION_INVALID then c1\<lparr>tls_state := Some (st\<lparr>invalid := 1\<rparr>)\<rparr>
      else if flag = IEEE754_EXCEPTION_DIVBYZERO then c1\<lparr>tls_state := Some (st\<lparr>divByZero := 1\<rparr>)\<rparr>
      else if flag = IEEE754_EXCEPTION_OVERFLOW then c1\<lparr>tls_state := Some (st\<lparr>overflow := 1\<rparr>)\<rparr>
      else if flag = IEEE754_EXCEPTION_UNDERFLOW then c1\<lparr>tls_state := Some (st\<lparr>underflow := 1\<rparr>)\<rparr>
      else if flag = IEEE754_EXCEPTION_INEXACT then c1\<lparr>tls_state := Some (st\<lparr>inexact := 1\<rparr>)\<rparr>
      else c1)"

definition ieee754_test_exception :: "int \<Rightarrow> thread_ctx \<Rightarrow> int \<times> thread_ctx" where
  "ieee754_test_exception flag c =
     (let (st, c1) = get_thread_state c in
      if flag = IEEE754_EXCEPTION_INVALID then (uint (invalid st), c1)
      else if flag = IEEE754_EXCEPTION_DIVBYZERO then (uint (divByZero st), c1)
      else if flag = IEEE754_EXCEPTION_OVERFLOW then (uint (overflow st), c1)
      else if flag = IEEE754_EXCEPTION_UNDERFLOW then (uint (underflow st), c1)
      else if flag = IEEE754_EXCEPTION_INEXACT then (uint (inexact st), c1)
      else (0, c1))"

definition ieee754_clear_exception :: "int \<Rightarrow> thread_ctx \<Rightarrow> thread_ctx" where
  "ieee754_clear_exception flag c =
     (let (st, c1) = get_thread_state c in
      if flag = IEEE754_EXCEPTION_INVALID then c1\<lparr>tls_state := Some (st\<lparr>invalid := 0\<rparr>)\<rparr>
      else if flag = IEEE754_EXCEPTION_DIVBYZERO then c1\<lparr>tls_state := Some (st\<lparr>divByZero := 0\<rparr>)\<rparr>
      else if flag = IEEE754_EXCEPTION_OVERFLOW then c1\<lparr>tls_state := Some (st\<lparr>overflow := 0\<rparr>)\<rparr>
      else if flag = IEEE754_EXCEPTION_UNDERFLOW then c1\<lparr>tls_state := Some (st\<lparr>underflow := 0\<rparr>)\<rparr>
      else if flag = IEEE754_EXCEPTION_INEXACT then c1\<lparr>tls_state := Some (st\<lparr>inexact := 0\<rparr>)\<rparr>
      else c1)"

definition ieee754_get_exceptions :: "thread_ctx \<Rightarrow> IEEE754Exceptions \<times> thread_ctx" where
  "ieee754_get_exceptions c =
     (let (st, c1) = get_thread_state c in
      (\<lparr>ex_invalid = invalid st, ex_divByZero = divByZero st, ex_overflow = overflow st,
        ex_underflow = underflow st, ex_inexact = inexact st\<rparr>, c1))"

text \<open>\<open>memset(state, 0, sizeof(ThreadExceptionState))\<close> zeroes all five fields.\<close>

definition ieee754_clear_all_exceptions :: "thread_ctx \<Rightarrow> thread_ctx" where
  "ieee754_clear_all_exceptions c =
     (let (st, c1) = get_thread_state c in c1\<lparr>tls_state := Some zero_state\<rparr>)"

text \<open>
  The five flags of a thread's store as a client can observe them: the struct that
  \<open>get_thread_state\<close> hands out.
\<close>

definition store_flags :: "thread_ctx \<Rightarrow> ThreadExceptionState" where
  "store_flags c = fst (get_thread_state c)"

section \<open>Rounding control (fpu\_rounding.c)\<close>

definition ieee754_to_fe_round :: "int \<Rightarrow> fe_round" where
  "ieee754_to_fe_round mode =
     (if mode = IEEE754_ROUND_TONEAREST then FE_TONEAREST
      else if mode = IEEE754_ROUND_DOWNWARD then FE_DOWNWARD
      else if mode = IEEE754_ROUND_UPWARD then FE_UPWARD
      else if mode = IEEE754_ROUND_TOWARDZERO then FE_TOWARDZERO
      else FE_TONEAREST)"

fun fe_round_to_ieee754 :: "fe_round \<Rightarrow> int" where
  "fe_round_to_ieee754 FE_TONEAREST = IEEE754_ROUND_TONEAREST"
| "fe_round_to_ieee754 FE_DOWNWARD = IEEE754_ROUND_DOWNWARD"
| "fe_round_to_ieee754 FE_UPWARD = IEEE754_ROUND_UPWARD"
| "fe_round_to_ieee754 FE_TOWARDZERO = IEEE754_ROUND_TOWARDZERO"
| "fe_round_to_ieee754 (FE_OTHER k) = IEEE754_ROUND_TONEAREST"

text \<open>
  The C library's \<open>fesetround\<close> and \<open>fegetround\<close>. \<open>plat\<close> is the set of rounding
  directions the platform can establish: \<open>fesetround\<close> returns zero exactly when it
  established the requested direction, and leaves the direction alone otherwise. The
  standard fixes the failure value only as non-zero; the model returns 1.
\<close>

definition fesetround :: "fe_round set \<Rightarrow> fe_round \<Rightarrow> thread_ctx \<Rightarrow> int \<times> thread_ctx" where
  "fesetround plat r c = (if r \<in> plat then (0, c\<lparr>fe_rounding := r\<rparr>) else (1, c))"

definition fegetround :: "thread_ctx \<Rightarrow> fe_round" where
  "fegetround c = fe_rounding c"

definition ieee754_set_rounding_mode ::
  "fe_round set \<Rightarrow> int \<Rightarrow> thread_ctx \<Rightarrow> int \<times> thread_ctx" where
  "ieee754_set_rounding_mode plat mode c =
     (let fe_mode = ieee754_to_fe_round mode in fesetround plat fe_mode c)"

definition ieee754_get_rounding_mode :: "thread_ctx \<Rightarrow> int" where
  "ieee754_get_rounding_mode c = (let fe_mode = fegetround c in fe_round_to_ieee754 fe_mode)"

text \<open>A platform on which each of the four standard directions can be established.\<close>

definition conforming :: "fe_round set \<Rightarrow> bool" where
  "conforming plat =
     (FE_TONEAREST \<in> plat \<and> FE_DOWNWARD \<in> plat \<and> FE_UPWARD \<in> plat \<and> FE_TOWARDZERO \<in> plat)"

section \<open>Hardware exception flags (fpu\_exceptions.c)\<close>

text \<open>
  The C library's status-flag functions on the calling thread's environment. A status
  word is the set of exceptions whose bits are set; \<open>flags & FE_X\<close> is non-zero exactly
  when \<open>FE_X\<close> is in the set.
\<close>

definition fetestexcept :: "fe_except set \<Rightarrow> thread_ctx \<Rightarrow> fe_except set" where
  "fetestexcept excepts c = fe_flags c \<inter> excepts"

definition feclearexcept :: "fe_except set \<Rightarrow> thread_ctx \<Rightarrow> thread_ctx" where
  "feclearexcept excepts c = c\<lparr>fe_flags := fe_flags c - excepts\<rparr>"

definition feraiseexcept :: "fe_except set \<Rightarrow> thread_ctx \<Rightarrow> thread_ctx" where
  "feraiseexcept excepts c = c\<lparr>fe_flags := fe_flags c \<union> excepts\<rparr>"

definition ieee754_test_fpu_exceptions :: "thread_ctx \<Rightarrow> IEEE754Exceptions" where
  "ieee754_test_fpu_exceptions c =
     (let flags = fetestexcept FE_ALL_EXCEPT c in
      \<lparr>ex_invalid = (if FE_INVALID \<in> flags then 1 else 0),
       ex_divByZero = (if FE_DIVBYZERO \<in> flags then 1 else 0),
       ex_overflow = (if FE_OVERFLOW \<in> flags then 1 else 0),
       ex_underflow = (if FE_UNDERFLOW \<in> flags then 1 else 0),
       ex_inexact = (if FE_INEXACT \<in> flags then 1 else 0)\<rparr>)"

definition ieee754_clear_fpu_exceptions :: "thread_ctx \<Rightarrow> thread_ctx" where
  "ieee754_clear_fpu_exceptions c = feclearexcept FE_ALL_EXCEPT c"

section \<open>Floating-point operands\<close>

text \<open>
  A \<open>double\<close> is its 64-bit pattern and a \<open>float\<close> its 32-bit pattern (IEEE 754 binary64
  and binary32): one sign bit, \<open>eb\<close> exponent bits, \<open>fb\<close> fraction bits. The fields are
  read from the pattern as a natural number.
\<close>

type_synonym c_double = "64 word"
type_synonym c_float = "32 word"

definition fp_exponent :: "nat \<Rightarrow> nat \<Rightarrow> nat \<Rightarrow> nat" where
  "fp_exponent eb fb n = (n div 2 ^ fb) mod 2 ^ eb"

definition fp_fraction :: "nat \<Rightarrow> nat \<Rightarrow> nat" where
  "fp_fraction fb n = n mod 2 ^ fb"

definition fp_sign :: "nat \<Rightarrow> nat \<Rightarrow> nat \<Rightarrow> bool" where
  "fp_sign eb fb n = ((n div 2 ^ (eb + fb)) mod 2 = 1)"

text \<open>NaN: exponent all ones, fraction non-zero. Quiet when the top fraction bit is set.\<close>

definition fp_isnan :: "nat \<Rightarrow> nat \<Rightarrow> nat \<Rightarrow> bool" where
  "fp_isnan eb fb n = (fp_exponent eb fb n = 2 ^ eb - 1 \<and> fp_fraction fb n \<noteq> 0)"

definition fp_is_quiet_nan :: "nat \<Rightarrow> nat \<Rightarrow> nat \<Rightarrow> bool" where
  "fp_is_quiet_nan eb fb n = (fp_isnan eb fb n \<and> 2 ^ (fb - 1) \<le> fp_fraction fb n)"

definition fp_is_signaling_nan :: "nat \<Rightarrow> nat \<Rightarrow> nat \<Rightarrow> bool" where
  "fp_is_signaling_nan eb fb n = (fp_isnan eb fb n \<and> fp_fraction fb n < 2 ^ (fb - 1))"

definition fp_bias :: "nat \<Rightarrow> int" where
  "fp_bias eb = 2 ^ (eb - 1) - 1"

text \<open>The number a pattern with a non-maximal exponent stands for (subnormals at exponent 0).\<close>

definition fp_value :: "nat \<Rightarrow> nat \<Rightarrow> nat \<Rightarrow> rat" where
  "fp_value eb fb n =
     (let e = fp_exponent eb fb n; f = fp_fraction fb n;
          s = (if fp_sign eb fb n then - 1 else 1) in
      if e = 0 then s * (of_nat f / 2 ^ fb) * 2 powi (1 - fp_bias eb)
      else s * (1 + of_nat f / 2 ^ fb) * 2 powi (int e - fp_bias eb))"

datatype fpval = NaN | Infinity bool | Finite rat

definition fp_decode :: "nat \<Rightarrow> nat \<Rightarrow> nat \<Rightarrow> fpval" where
  "fp_decode eb fb n =
     (if fp_exponent eb fb n = 2 ^ eb - 1
      then (if fp_fraction fb n = 0 then Infinity (fp_sign eb fb n) else NaN)
      else Finite (fp_value eb fb n))"

text \<open>
  The comparison operators of C on floating operands (IEEE 754): every ordered comparison
  with a NaN is false, \<open>!=\<close> with a NaN is true, the two zeros are equal, and the
  infinities lie below and above every finite number. \<open>Infinity True\<close> is the negative one.
\<close>

fun fp_eq :: "fpval \<Rightarrow> fpval \<Rightarrow> bool" where
  "fp_eq (Finite a) (Finite b) = (a = b)"
| "fp_eq (Infinity s) (Infinity t) = (s = t)"
| "fp_eq _ _ = False"

fun fp_lt :: "fpval \<Rightarrow> fpval \<Rightarrow> bool" where
  "fp_lt (Finite a) (Finite b) = (a < b)"
| "fp_lt (Infinity s) (Infinity t) = (s \<and> \<not> t)"
| "fp_lt (Infinity s) (Finite b) = s"
| "fp_lt (Finite a) (Infinity t) = (\<not> t)"
| "fp_lt _ _ = False"

definition fp_le :: "fpval \<Rightarrow> fpval \<Rightarrow> bool" where
  "fp_le a b = (fp_lt a b \<or> fp_eq a b)"

definition fp_gt :: "fpval \<Rightarrow> fpval \<Rightarrow> bool" where
  "fp_gt a b = fp_lt b a"

definition fp_ge :: "fpval \<Rightarrow> fpval \<Rightarrow> bool" where
  "fp_ge a b = fp_le b a"

definition fp_ne :: "fpval \<Rightarrow> fpval \<Rightarrow> bool" where
  "fp_ne a b = (\<not> fp_eq a b)"

definition isnan_d :: "c_double \<Rightarrow> bool" where
  "isnan_d x = fp_isnan 11 52 (unat x)"

definition isnan_f :: "c_float \<Rightarrow> bool" where
  "isnan_f x = fp_isnan 8 23 (unat x)"

definition decode_d :: "c_double \<Rightarrow> fpval" where
  "decode_d x = fp_decode 11 52 (unat x)"

definition decode_f :: "c_float \<Rightarrow> fpval" where
  "decode_f x = fp_decode 8 23 (unat x)"

section \<open>Signaling comparisons (signaling\_compare.c)\<close>

text \<open>
  Each function tests its operands with \<open>isnan\<close>, and on a NaN raises \<open>FE_INVALID\<close> in the
  hardware flags, then \<open>IEEE754_EXCEPTION_INVALID\<close> in the thread's store, and returns
  its constant. Otherwise it returns what the C operator gives, as an \<open>int\<close> (0 or 1);
  on operands that are not NaN the operators of C raise no floating-point exception, so
  that branch hands the thread's context back as it got it.
\<close>

definition ieee754_signaling_equal :: "c_double \<Rightarrow> c_double \<Rightarrow> thread_ctx \<Rightarrow> int \<times> thread_ctx" where
  "ieee754_signaling_equal x y c =
     (if isnan_d x \<or> isnan_d y
      then (0, ieee754_raise_exception IEEE754_EXCEPTION_INVALID (feraiseexcept {FE_INVALID} c))
      else (of_bool (fp_eq (decode_d x) (decode_d y)), c))"

definition ieee754_signaling_less :: "c_double \<Rightarrow> c_double \<Rightarrow> thread_ctx \<Rightarrow> int \<times> thread_ctx" where
  "ieee754_signaling_less x y c =
     (if isnan_d x \<or> isnan_d y
      then (0, ieee754_raise_exception IEEE754_EXCEPTION_INVALID (feraiseexcept {FE_INVALID} c))
      else (of_bool (fp_lt (decode_d x) (decode_d y)), c))"

definition ieee754_signaling_less_equal :: "c_double \<Rightarrow> c_double \<Rightarrow> thread_ctx \<Rightarrow> int \<times> thread_ctx" where
  "ieee754_signaling_less_equal x y c =
     (if isnan_d x \<or> isnan_d y
      then (0, ieee754_raise_exception IEEE754_EXCEPTION_INVALID (feraiseexcept {FE_INVALID} c))
      else (of_bool (fp_le (decode_d x) (decode_d y)), c))"

definition ieee754_signaling_greater :: "c_double \<Rightarrow> c_double \<Rightarrow> thread_ctx \<Rightarrow> int \<times> thread_ctx" where
  "ieee754_signaling_greater x y c =
     (if isnan_d x \<or> isnan_d y
      then (0, ieee754_raise_exception IEEE754_EXCEPTION_INVALID (feraiseexcept {FE_INVALID} c))
      else (of_bool (fp_gt (decode_d x) (decode_d y)), c))"

definition ieee754_signaling_greater_equal :: "c_double \<Rightarrow> c_double \<Rightarrow> thread_ctx \<Rightarrow> int \<times> thread_ctx" where
  "ieee754_signaling_greater_equal x y c =
     (if isnan_d x \<or> isnan_d y
      then (0, ieee754_raise_exception IEEE754_EXCEPTION_INVALID (feraiseexcept {FE_INVALID} c))
      else (of_bool (fp_ge (decode_d x) (decode_d y)), c))"

definition ieee754_signaling_not_equal :: "c_double \<Rightarrow> c_double \<Rightarrow> thread_ctx \<Rightarrow> int \<times> thread_ctx" where
  "ieee754_signaling_not_equal x y c =
     (if isnan_d x \<or> isnan_d y
      then (1, ieee754_raise_exception IEEE754_EXCEPTION_INVALID (feraiseexcept {FE_INVALID} c))
      else (of_bool (fp_ne (decode_d x) (decode_d y)), c))"

definition ieee754_signaling_equal_f :: "c_float \<Rightarrow> c_float \<Rightarrow> thread_ctx \<Rightarrow> int \<times> thread_ctx" where
  "ieee754_signaling_equal_f x y c =
     (if isnan_f x \<or> isnan_f y
      then (0, ieee754_raise_exception IEEE754_EXCEPTION_INVALID (feraiseexcept {FE_INVALID} c))
      else (of_bool (fp_eq (decode_f x) (decode_f y)), c))"

definition ieee754_signaling_less_f :: "c_float \<Rightarrow> c_float \<Rightarrow> thread_ctx \<Rightarrow> int \<times> thread_ctx" where
  "ieee754_signaling_less_f x y c =
     (if isnan_f x \<or> isnan_f y
      then (0, ieee754_raise_exception IEEE754_EXCEPTION_INVALID (feraiseexcept {FE_INVALID} c))
      else (of_bool (fp_lt (decode_f x) (decode_f y)), c))"

definition ieee754_signaling_less_equal_f :: "c_float \<Rightarrow> c_float \<Rightarrow> thread_ctx \<Rightarrow> int \<times> thread_ctx" where
  "ieee754_signaling_less_equal_f x y c =
     (if isnan_f x \<or> isnan_f y
      then (0, ieee754_raise_exception IEEE754_EXCEPTION_INVALID (feraiseexcept {FE_INVALID} c))
      else (of_bool (fp_le (decode_f x) (decode_f y)), c))"

definition ieee754_signaling_greater_f :: "c_float \<Rightarrow> c_float \<Rightarrow> thread_ctx \<Rightarrow> int \<times> thread_ctx" where
  "ieee754_signaling_greater_f x y c =
     (if isnan_f x \<or> isnan_f y
      then (0, ieee754_raise_exception IEEE754_EXCEPTION_INVALID (feraiseexcept {FE_INVALID} c))
      else (of_bool (fp_gt (decode_f x) (decode_f y)), c))"

definition ieee754_signaling_greater_equal_f :: "c_float \<Rightarrow> c_float \<Rightarrow> thread_ctx \<Rightarrow> int \<times> thread_ctx" where
  "ieee754_signaling_greater_equal_f x y c =
     (if isnan_f x \<or> isnan_f y
      then (0, ieee754_raise_exception IEEE754_EXCEPTION_INVALID (feraiseexcept {FE_INVALID} c))
      else (of_bool (fp_ge (decode_f x) (decode_f y)), c))"

definition ieee754_signaling_not_equal_f :: "c_float \<Rightarrow> c_float \<Rightarrow> thread_ctx \<Rightarrow> int \<times> thread_ctx" where
  "ieee754_signaling_not_equal_f x y c =
     (if isnan_f x \<or> isnan_f y
      then (1, ieee754_raise_exception IEEE754_EXCEPTION_INVALID (feraiseexcept {FE_INVALID} c))
      else (of_bool (fp_ne (decode_f x) (decode_f y)), c))"

text \<open>The six predicates of each width as one family, to speak of "every comparator".\<close>

datatype predicate = P_eq | P_lt | P_le | P_gt | P_ge | P_ne

fun signaling_d :: "predicate \<Rightarrow> c_double \<Rightarrow> c_double \<Rightarrow> thread_ctx \<Rightarrow> int \<times> thread_ctx" where
  "signaling_d P_eq = ieee754_signaling_equal"
| "signaling_d P_lt = ieee754_signaling_less"
| "signaling_d P_le = ieee754_signaling_less_equal"
| "signaling_d P_gt = ieee754_signaling_greater"
| "signaling_d P_ge = ieee754_signaling_greater_equal"
| "signaling_d P_ne = ieee754_signaling_not_equal"

fun signaling_f :: "predicate \<Rightarrow> c_float \<Rightarrow> c_float \<Rightarrow> thread_ctx \<Rightarrow> int \<times> thread_ctx" where
  "signaling_f P_eq = ieee754_signaling_equal_f"
| "signaling_f P_lt = ieee754_signaling_less_f"
| "signaling_f P_le = ieee754_signaling_less_equal_f"
| "signaling_f P_gt = ieee754_signaling_greater_f"
| "signaling_f P_ge = ieee754_signaling_greater_equal_f"
| "signaling_f P_ne = ieee754_signaling_not_equal_f"

text \<open>The result IEEE 754 fixes for an unordered pair, and the ordinary comparison.\<close>

fun unordered_result :: "predicate \<Rightarrow> int" where
  "unordered_result P_ne = 1"
| "unordered_result _ = 0"

fun compares :: "predicate \<Rightarrow> fpval \<Rightarrow> fpval \<Rightarrow> bool" where
  "compares P_eq = fp_eq"
| "compares P_lt = fp_lt"
| "compares P_le = fp_le"
| "compares P_gt = fp_gt"
| "compares P_ge = fp_ge"
| "compares P_ne = fp_ne"

section \<open>Threads and the heap (tls\_exceptions.c, \<open>get_thread_state\<close>)\<close>

text \<open>
  The functions above are written for the calling thread. Here the whole process is
  explicit, to see which memory each thread reaches: the heap holds the blocks that
  \<open>calloc\<close> has handed out, by address; \<open>specific\<close> is the value stored under
  \<open>exception_key\<close> for each thread (\<open>None\<close> is the null pointer); \<open>calloc\<close> returns an
  address that is not in use, here the next one of a counter, and zeroes the block.
  Blocks are freed only when a thread exits, which is outside the model. Every function
  takes the identifier of the thread that calls it; one call is one step.
\<close>

record process =
  heap :: "nat \<Rightarrow> ThreadExceptionState"
  next_addr :: nat
  specific :: "nat \<Rightarrow> nat option"

definition calloc_state :: "process \<Rightarrow> nat \<times> process" where
  "calloc_state p =
     (next_addr p, p\<lparr>heap := (heap p)(next_addr p := zero_state), next_addr := Suc (next_addr p)\<rparr>)"

definition get_thread_state_by :: "nat \<Rightarrow> process \<Rightarrow> nat \<times> process" where
  "get_thread_state_by t p =
     (case specific p t of
        Some a \<Rightarrow> (a, p)
      | None \<Rightarrow> (let (a, p1) = calloc_state p in (a, p1\<lparr>specific := (specific p1)(t \<mapsto> a)\<rparr>)))"

text \<open>A write through the pointer \<open>a\<close>: \<open>state->field = v\<close>.\<close>

definition write_state ::
  "nat \<Rightarrow> (ThreadExceptionState \<Rightarrow> ThreadExceptionState) \<Rightarrow> process \<Rightarrow> process" where
  "write_state a upd p = p\<lparr>heap := (heap p)(a := upd (heap p a))\<rparr>"

definition ieee754_raise_exception_by :: "int \<Rightarrow> nat \<Rightarrow> process \<Rightarrow> process" where
  "ieee754_raise_exception_by flag t p =
     (let (a, p1) = get_thread_state_by t p in
      if flag = IEEE754_EXCEPTION_INVALID then write_state a (\<lambda>st. st\<lparr>invalid := 1\<rparr>) p1
      else if flag = IEEE754_EXCEPTION_DIVBYZERO then write_state a (\<lambda>st. st\<lparr>divByZero := 1\<rparr>) p1
      else if flag = IEEE754_EXCEPTION_OVERFLOW then write_state a (\<lambda>st. st\<lparr>overflow := 1\<rparr>) p1
      else if flag = IEEE754_EXCEPTION_UNDERFLOW then write_state a (\<lambda>st. st\<lparr>underflow := 1\<rparr>) p1
      else if flag = IEEE754_EXCEPTION_INEXACT then write_state a (\<lambda>st. st\<lparr>inexact := 1\<rparr>) p1
      else p1)"

definition ieee754_test_exception_by :: "int \<Rightarrow> nat \<Rightarrow> process \<Rightarrow> int \<times> process" where
  "ieee754_test_exception_by flag t p =
     (let (a, p1) = get_thread_state_by t p in
      if flag = IEEE754_EXCEPTION_INVALID then (uint (invalid (heap p1 a)), p1)
      else if flag = IEEE754_EXCEPTION_DIVBYZERO then (uint (divByZero (heap p1 a)), p1)
      else if flag = IEEE754_EXCEPTION_OVERFLOW then (uint (overflow (heap p1 a)), p1)
      else if flag = IEEE754_EXCEPTION_UNDERFLOW then (uint (underflow (heap p1 a)), p1)
      else if flag = IEEE754_EXCEPTION_INEXACT then (uint (inexact (heap p1 a)), p1)
      else (0, p1))"

definition ieee754_clear_exception_by :: "int \<Rightarrow> nat \<Rightarrow> process \<Rightarrow> process" where
  "ieee754_clear_exception_by flag t p =
     (let (a, p1) = get_thread_state_by t p in
      if flag = IEEE754_EXCEPTION_INVALID then write_state a (\<lambda>st. st\<lparr>invalid := 0\<rparr>) p1
      else if flag = IEEE754_EXCEPTION_DIVBYZERO then write_state a (\<lambda>st. st\<lparr>divByZero := 0\<rparr>) p1
      else if flag = IEEE754_EXCEPTION_OVERFLOW then write_state a (\<lambda>st. st\<lparr>overflow := 0\<rparr>) p1
      else if flag = IEEE754_EXCEPTION_UNDERFLOW then write_state a (\<lambda>st. st\<lparr>underflow := 0\<rparr>) p1
      else if flag = IEEE754_EXCEPTION_INEXACT then write_state a (\<lambda>st. st\<lparr>inexact := 0\<rparr>) p1
      else p1)"

definition ieee754_get_exceptions_by :: "nat \<Rightarrow> process \<Rightarrow> IEEE754Exceptions \<times> process" where
  "ieee754_get_exceptions_by t p =
     (let (a, p1) = get_thread_state_by t p in
      (\<lparr>ex_invalid = invalid (heap p1 a), ex_divByZero = divByZero (heap p1 a),
        ex_overflow = overflow (heap p1 a), ex_underflow = underflow (heap p1 a),
        ex_inexact = inexact (heap p1 a)\<rparr>, p1))"

definition ieee754_clear_all_exceptions_by :: "nat \<Rightarrow> process \<Rightarrow> process" where
  "ieee754_clear_all_exceptions_by t p =
     (let (a, p1) = get_thread_state_by t p in write_state a (\<lambda>st. zero_state) p1)"

text \<open>
  The calls on the store. The comparators reach the store only by calling
  \<open>ieee754_raise_exception\<close>: a comparison with a NaN operand is \<open>Raise\<close> of the invalid
  flag here, and any other comparison is no call at all.
\<close>

datatype store_call = Raise int | Test int | Clear int | GetAll | ClearAll

fun store_effect_by :: "store_call \<Rightarrow> nat \<Rightarrow> process \<Rightarrow> process" where
  "store_effect_by (Raise f) t p = ieee754_raise_exception_by f t p"
| "store_effect_by (Test f) t p = snd (ieee754_test_exception_by f t p)"
| "store_effect_by (Clear f) t p = ieee754_clear_exception_by f t p"
| "store_effect_by GetAll t p = snd (ieee754_get_exceptions_by t p)"
| "store_effect_by ClearAll t p = ieee754_clear_all_exceptions_by t p"

text \<open>A schedule: the calls of all threads in the order in which they happen.\<close>

fun run_schedule :: "(nat \<times> store_call) list \<Rightarrow> process \<Rightarrow> process" where
  "run_schedule [] p = p"
| "run_schedule ((t, call) # rest) p = run_schedule rest (store_effect_by call t p)"

text \<open>
  What a thread can see of the process: the block its pointer leads to, if it has one.
  This is the \<open>tls_state\<close> of the per-thread functions.
\<close>

definition thread_store :: "process \<Rightarrow> nat \<Rightarrow> ThreadExceptionState option" where
  "thread_store p t = map_option (heap p) (specific p t)"

text \<open>
  The same calls on one thread's context, and the calls one thread makes in a schedule.
\<close>

fun store_effect :: "store_call \<Rightarrow> thread_ctx \<Rightarrow> thread_ctx" where
  "store_effect (Raise f) c = ieee754_raise_exception f c"
| "store_effect (Test f) c = snd (ieee754_test_exception f c)"
| "store_effect (Clear f) c = ieee754_clear_exception f c"
| "store_effect GetAll c = snd (ieee754_get_exceptions c)"
| "store_effect ClearAll c = ieee754_clear_all_exceptions c"

fun thread_run :: "store_call list \<Rightarrow> thread_ctx \<Rightarrow> thread_ctx" where
  "thread_run [] c = c"
| "thread_run (call # rest) c = thread_run rest (store_effect call c)"

definition calls_of :: "nat \<Rightarrow> (nat \<times> store_call) list \<Rightarrow> store_call list" where
  "calls_of t sched = map snd (filter (\<lambda>(u, call). u = t) sched)"

text \<open>
  The state of the heap that the code maintains: every stored pointer leads to a block
  that \<open>calloc\<close> has handed out, and no two threads store the same pointer.
\<close>

definition heap_ok :: "process \<Rightarrow> bool" where
  "heap_ok p =
     ((\<forall>t a. specific p t = Some a \<longrightarrow> a < next_addr p)
      \<and> (\<forall>t u a. specific p t = Some a \<and> specific p u = Some a \<longrightarrow> t = u))"

text \<open>The process at start: nothing allocated, no thread has a store.\<close>

definition init_process :: process where
  "init_process = \<lparr>heap = (\<lambda>a. zero_state), next_addr = 1, specific = (\<lambda>t. None)\<rparr>"

section \<open>Vocabulary of the properties\<close>

definition flag_ids :: "int set" where
  "flag_ids = {IEEE754_EXCEPTION_INVALID, IEEE754_EXCEPTION_DIVBYZERO,
     IEEE754_EXCEPTION_OVERFLOW, IEEE754_EXCEPTION_UNDERFLOW, IEEE754_EXCEPTION_INEXACT}"

definition rounding_modes :: "int set" where
  "rounding_modes = {IEEE754_ROUND_TONEAREST, IEEE754_ROUND_DOWNWARD,
     IEEE754_ROUND_UPWARD, IEEE754_ROUND_TOWARDZERO}"

definition no_flags :: IEEE754Exceptions where
  "no_flags = \<lparr>ex_invalid = 0, ex_divByZero = 0, ex_overflow = 0, ex_underflow = 0,
     ex_inexact = 0\<rparr>"

definition quiet_nan_d :: "c_double \<Rightarrow> bool" where
  "quiet_nan_d x = fp_is_quiet_nan 11 52 (unat x)"

definition signaling_nan_d :: "c_double \<Rightarrow> bool" where
  "signaling_nan_d x = fp_is_signaling_nan 11 52 (unat x)"

definition quiet_nan_f :: "c_float \<Rightarrow> bool" where
  "quiet_nan_f x = fp_is_quiet_nan 8 23 (unat x)"

definition signaling_nan_f :: "c_float \<Rightarrow> bool" where
  "signaling_nan_f x = fp_is_signaling_nan 8 23 (unat x)"

text \<open>The comparison of two numbers that each predicate names.\<close>

fun numeric :: "predicate \<Rightarrow> rat \<Rightarrow> rat \<Rightarrow> bool" where
  "numeric P_eq a b = (a = b)"
| "numeric P_lt a b = (a < b)"
| "numeric P_le a b = (a \<le> b)"
| "numeric P_gt a b = (a > b)"
| "numeric P_ge a b = (a \<ge> b)"
| "numeric P_ne a b = (a \<noteq> b)"

subsection \<open>Concrete inputs\<close>

text \<open>
  A thread that has not touched its store yet, and one whose store holds \<open>invalid\<close> and
  \<open>inexact\<close>, with the hardware \<open>inexact\<close> flag set and rounding upward.
\<close>

definition fresh_ctx :: thread_ctx where
  "fresh_ctx = \<lparr>tls_state = None, fe_flags = {}, fe_rounding = FE_TONEAREST\<rparr>"

definition used_ctx :: thread_ctx where
  "used_ctx = \<lparr>tls_state = Some (zero_state\<lparr>invalid := 1, inexact := 1\<rparr>),
     fe_flags = {FE_INEXACT}, fe_rounding = FE_UPWARD\<rparr>"

definition std_platform :: "fe_round set" where
  "std_platform = {FE_TONEAREST, FE_DOWNWARD, FE_UPWARD, FE_TOWARDZERO}"

definition nearest_only_platform :: "fe_round set" where
  "nearest_only_platform = {FE_TONEAREST}"

text \<open>Bit patterns: 1.0, 2.0, a quiet NaN, a signaling NaN and +infinity, in both widths.\<close>

definition d_one :: c_double where "d_one = 0x3FF0000000000000"
definition d_two :: c_double where "d_two = 0x4000000000000000"
definition d_qnan :: c_double where "d_qnan = 0x7FF8000000000000"
definition d_snan :: c_double where "d_snan = 0x7FF0000000000001"
definition d_inf :: c_double where "d_inf = 0x7FF0000000000000"

definition f_one :: c_float where "f_one = 0x3F800000"
definition f_two :: c_float where "f_two = 0x40000000"
definition f_qnan :: c_float where "f_qnan = 0x7FC00000"
definition f_snan :: c_float where "f_snan = 0x7F800001"
definition f_inf :: c_float where "f_inf = 0x7F800000"

section \<open>Basic facts\<close>

lemmas enum_defs =
  IEEE754_ROUND_TONEAREST_def IEEE754_ROUND_DOWNWARD_def
  IEEE754_ROUND_UPWARD_def IEEE754_ROUND_TOWARDZERO_def
  IEEE754_EXCEPTION_INVALID_def IEEE754_EXCEPTION_DIVBYZERO_def
  IEEE754_EXCEPTION_OVERFLOW_def IEEE754_EXCEPTION_UNDERFLOW_def
  IEEE754_EXCEPTION_INEXACT_def

lemmas store_defs =
  get_thread_state_def ieee754_raise_exception_def ieee754_test_exception_def
  ieee754_clear_exception_def ieee754_get_exceptions_def ieee754_clear_all_exceptions_def
  store_flags_def

lemmas round_defs =
  ieee754_set_rounding_mode_def ieee754_get_rounding_mode_def fesetround_def
  fegetround_def ieee754_to_fe_round_def conforming_def

lemmas fp_defs =
  fp_isnan_def fp_is_quiet_nan_def fp_is_signaling_nan_def fp_exponent_def fp_fraction_def
  fp_sign_def fp_bias_def fp_value_def fp_decode_def

lemmas ctx_defs = fresh_ctx_def used_ctx_def zero_state_def no_flags_def

lemma flag_ids_range: "flag_ids = {0..4}"
  by (auto simp: flag_ids_def enum_defs)

lemma rounding_modes_range: "rounding_modes = {0..3}"
  by (auto simp: rounding_modes_def enum_defs)

lemma clear_all_store_flags: "store_flags (ieee754_clear_all_exceptions c) = zero_state"
  by (simp add: store_defs split: option.splits)

section \<open>Software exception store: properties\<close>

text \<open>
  Claim C8. For a defined flag identifier \<open>f\<close>, \<open>raise(f)\<close> sets the flag \<open>f\<close> of the calling
  thread's store and leaves the other four as they were (read back with \<open>test\<close> for
  any defined \<open>g\<close>); it does not touch the hardware environment. The sequence
  \<open>clearAll(); raise(DivByZero); getAll()\<close> returns divByZero = 1 and the other four
  fields 0, and \<open>clearAll(); getAll()\<close> returns all five fields 0.
\<close>

theorem raise_sets_exactly_named_flag:
  assumes "f \<in> flag_ids" and "g \<in> flag_ids"
  shows "fst (ieee754_test_exception g (ieee754_raise_exception f c)) =
           (if g = f then 1 else fst (ieee754_test_exception g c))
       \<and> fe_flags (ieee754_raise_exception f c) = fe_flags c
       \<and> fe_rounding (ieee754_raise_exception f c) = fe_rounding c
       \<and> fst (ieee754_get_exceptions (ieee754_raise_exception IEEE754_EXCEPTION_DIVBYZERO
             (ieee754_clear_all_exceptions c))) = no_flags\<lparr>ex_divByZero := 1\<rparr>
       \<and> fst (ieee754_get_exceptions (ieee754_clear_all_exceptions c)) = no_flags"
  using assms
  by (auto simp: store_defs flag_ids_def enum_defs zero_state_def no_flags_def
      split: option.splits)

theorem raise_sets_exactly_named_flag_witness:
  "IEEE754_EXCEPTION_DIVBYZERO \<in> flag_ids \<and> IEEE754_EXCEPTION_INEXACT \<in> flag_ids
   \<and> fst (ieee754_test_exception IEEE754_EXCEPTION_INEXACT
        (ieee754_raise_exception IEEE754_EXCEPTION_DIVBYZERO used_ctx)) = 1
   \<and> fst (ieee754_test_exception IEEE754_EXCEPTION_DIVBYZERO
        (ieee754_raise_exception IEEE754_EXCEPTION_DIVBYZERO used_ctx)) = 1
   \<and> fst (ieee754_get_exceptions (ieee754_raise_exception IEEE754_EXCEPTION_DIVBYZERO
        (ieee754_clear_all_exceptions used_ctx))) =
      \<lparr>ex_invalid = 0, ex_divByZero = 1, ex_overflow = 0, ex_underflow = 0, ex_inexact = 0\<rparr>"
proof -
  have a: "IEEE754_EXCEPTION_DIVBYZERO \<in> flag_ids" and b: "IEEE754_EXCEPTION_INEXACT \<in> flag_ids"
    by (simp_all add: flag_ids_def)
  have t: "fst (ieee754_test_exception IEEE754_EXCEPTION_INEXACT used_ctx) = 1"
    by (simp add: store_defs ctx_defs enum_defs)
  show ?thesis
    using raise_sets_exactly_named_flag [OF a b, of used_ctx]
      raise_sets_exactly_named_flag [OF a a, of used_ctx] a b t
    by (simp add: enum_defs no_flags_def)
qed

text \<open>
  Claim C7. For a defined flag identifier \<open>f\<close> and any state, raising \<open>f\<close> twice gives the
  same state as raising it once, and so does clearing it twice. Clearing a flag that
  already tests clear leaves the five flags of the store and the hardware environment
  as they were; when the thread's store already exists, the whole thread context is
  unchanged (on a thread that never used its store, the call creates it, all clear).
\<close>

theorem raise_clear_idempotent:
  assumes "f \<in> flag_ids"
  shows "ieee754_raise_exception f (ieee754_raise_exception f c) = ieee754_raise_exception f c
       \<and> ieee754_clear_exception f (ieee754_clear_exception f c) = ieee754_clear_exception f c
       \<and> (fst (ieee754_test_exception f c) = 0 \<longrightarrow>
            store_flags (ieee754_clear_exception f c) = store_flags c
          \<and> fe_flags (ieee754_clear_exception f c) = fe_flags c
          \<and> fe_rounding (ieee754_clear_exception f c) = fe_rounding c)
       \<and> (fst (ieee754_test_exception f c) = 0 \<and> tls_state c \<noteq> None \<longrightarrow>
            ieee754_clear_exception f c = c)"
  using assms
  by (auto simp: store_defs flag_ids_def enum_defs zero_state_def uint_0_iff
      split: option.splits)

theorem raise_clear_idempotent_witness:
  "IEEE754_EXCEPTION_OVERFLOW \<in> flag_ids
   \<and> ieee754_raise_exception IEEE754_EXCEPTION_OVERFLOW
        (ieee754_raise_exception IEEE754_EXCEPTION_OVERFLOW used_ctx) =
      ieee754_raise_exception IEEE754_EXCEPTION_OVERFLOW used_ctx
   \<and> fst (ieee754_test_exception IEEE754_EXCEPTION_OVERFLOW used_ctx) = 0
   \<and> tls_state used_ctx \<noteq> None
   \<and> ieee754_clear_exception IEEE754_EXCEPTION_OVERFLOW used_ctx = used_ctx
   \<and> fst (ieee754_test_exception IEEE754_EXCEPTION_OVERFLOW fresh_ctx) = 0
   \<and> store_flags (ieee754_clear_exception IEEE754_EXCEPTION_OVERFLOW fresh_ctx) =
      store_flags fresh_ctx"
proof -
  have a: "IEEE754_EXCEPTION_OVERFLOW \<in> flag_ids"
    by (simp add: flag_ids_def)
  have t: "fst (ieee754_test_exception IEEE754_EXCEPTION_OVERFLOW used_ctx) = 0"
    "tls_state used_ctx \<noteq> None"
    "fst (ieee754_test_exception IEEE754_EXCEPTION_OVERFLOW fresh_ctx) = 0"
    by (simp_all add: store_defs ctx_defs enum_defs)
  show ?thesis
    using raise_clear_idempotent [OF a, of used_ctx] raise_clear_idempotent [OF a, of fresh_ctx] a t
    by simp
qed

text \<open>
  Claim C10. For an integer \<open>f\<close> outside 0..4, \<open>test(f)\<close> returns 0, and \<open>test(f)\<close>,
  \<open>raise(f)\<close> and \<open>clear(f)\<close> leave all five flags of the calling thread's store as they
  were (as read from the store and as \<open>getAll\<close> reports them). The functions of the
  model are total: every call returns.
\<close>

theorem undefined_flag_inert:
  assumes "f < 0 \<or> 4 < f"
  shows "fst (ieee754_test_exception f c) = 0
       \<and> store_flags (snd (ieee754_test_exception f c)) = store_flags c
       \<and> store_flags (ieee754_raise_exception f c) = store_flags c
       \<and> store_flags (ieee754_clear_exception f c) = store_flags c
       \<and> fst (ieee754_get_exceptions (ieee754_raise_exception f c)) =
           fst (ieee754_get_exceptions c)
       \<and> fst (ieee754_get_exceptions (ieee754_clear_exception f c)) =
           fst (ieee754_get_exceptions c)"
  using assms
  by (auto simp: store_defs enum_defs zero_state_def split: option.splits)

theorem undefined_flag_inert_witness:
  "(4::int) < 5
   \<and> fst (ieee754_test_exception 5 used_ctx) = 0
   \<and> store_flags (ieee754_raise_exception 5 used_ctx) = store_flags used_ctx
   \<and> store_flags (ieee754_clear_exception 5 used_ctx) = store_flags used_ctx
   \<and> fst (ieee754_test_exception (- 1) fresh_ctx) = 0
   \<and> store_flags (ieee754_raise_exception (- 1) fresh_ctx) = zero_state"
proof -
  have s: "store_flags fresh_ctx = zero_state"
    by (simp add: store_defs ctx_defs)
  show ?thesis
    using undefined_flag_inert [of 5 used_ctx] undefined_flag_inert [of "- 1" fresh_ctx] s
    by simp
qed

section \<open>Rounding control: properties\<close>

text \<open>
  Claim C4. For each of the four rounding modes \<open>m\<close>, on a platform that can establish
  the four standard directions (and, on any platform, whenever the call reports
  success), \<open>setRoundingMode(m)\<close> followed by \<open>getRoundingMode()\<close> returns \<open>m\<close>. The two
  mappings are inverse to each other on the four modes and the four native constants.
\<close>

theorem rounding_round_trip:
  assumes "m \<in> rounding_modes"
  shows "(conforming plat \<longrightarrow>
            ieee754_get_rounding_mode (snd (ieee754_set_rounding_mode plat m c)) = m)
       \<and> (fst (ieee754_set_rounding_mode plat m c) = 0 \<longrightarrow>
            ieee754_get_rounding_mode (snd (ieee754_set_rounding_mode plat m c)) = m)
       \<and> fe_round_to_ieee754 (ieee754_to_fe_round m) = m
       \<and> (r \<in> {FE_TONEAREST, FE_DOWNWARD, FE_UPWARD, FE_TOWARDZERO} \<longrightarrow>
            ieee754_to_fe_round (fe_round_to_ieee754 r) = r)"
  using assms
  by (auto simp: round_defs rounding_modes_def enum_defs)

theorem rounding_round_trip_witness:
  "IEEE754_ROUND_TOWARDZERO \<in> rounding_modes \<and> conforming std_platform
   \<and> fst (ieee754_set_rounding_mode std_platform IEEE754_ROUND_TOWARDZERO used_ctx) = 0
   \<and> ieee754_get_rounding_mode
        (snd (ieee754_set_rounding_mode std_platform IEEE754_ROUND_TOWARDZERO used_ctx)) =
      IEEE754_ROUND_TOWARDZERO
   \<and> ieee754_to_fe_round (fe_round_to_ieee754 FE_DOWNWARD) = FE_DOWNWARD"
proof -
  have a: "IEEE754_ROUND_TOWARDZERO \<in> rounding_modes"
    by (simp add: rounding_modes_def)
  have b: "conforming std_platform"
    by (simp add: conforming_def std_platform_def)
  have z: "fst (ieee754_set_rounding_mode std_platform IEEE754_ROUND_TOWARDZERO used_ctx) = 0"
    by (simp add: round_defs std_platform_def enum_defs)
  show ?thesis
    using rounding_round_trip [OF a, of std_platform used_ctx FE_DOWNWARD] a b z
    by simp
qed

text \<open>
  Claim C5. \<open>getRoundingMode\<close> always returns one of the four enumeration values, and
  when the environment reports a native value that is none of \<open>FE_TONEAREST\<close>,
  \<open>FE_DOWNWARD\<close>, \<open>FE_UPWARD\<close>, \<open>FE_TOWARDZERO\<close> it returns ToNearestEven.
\<close>

theorem get_rounding_mode_total:
  "ieee754_get_rounding_mode c \<in> rounding_modes
   \<and> (fegetround c \<notin> {FE_TONEAREST, FE_DOWNWARD, FE_UPWARD, FE_TOWARDZERO} \<longrightarrow>
        ieee754_get_rounding_mode c = IEEE754_ROUND_TONEAREST)"
  by (cases "fe_rounding c") (auto simp: round_defs rounding_modes_def)

theorem get_rounding_mode_total_witness:
  "fegetround (used_ctx\<lparr>fe_rounding := FE_OTHER 4096\<rparr>) \<notin>
      {FE_TONEAREST, FE_DOWNWARD, FE_UPWARD, FE_TOWARDZERO}
   \<and> ieee754_get_rounding_mode (used_ctx\<lparr>fe_rounding := FE_OTHER 4096\<rparr>) = 0
   \<and> ieee754_get_rounding_mode (used_ctx\<lparr>fe_rounding := FE_OTHER (- 1)\<rparr>) \<in> rounding_modes"
proof -
  have a: "fegetround (used_ctx\<lparr>fe_rounding := FE_OTHER 4096\<rparr>) \<notin>
      {FE_TONEAREST, FE_DOWNWARD, FE_UPWARD, FE_TOWARDZERO}"
    by (simp add: fegetround_def)
  show ?thesis
    using get_rounding_mode_total [of "used_ctx\<lparr>fe_rounding := FE_OTHER 4096\<rparr>"]
      get_rounding_mode_total [of "used_ctx\<lparr>fe_rounding := FE_OTHER (- 1)\<rparr>"] a
    by (simp add: enum_defs)
qed

text \<open>
  Claim C6. \<open>setRoundingMode\<close> returns a non-zero value exactly when the platform cannot
  establish the native direction the requested mode maps to, and then changes nothing;
  on a platform that can establish the four standard directions it returns 0 for every
  argument, in particular for each of the four modes.
\<close>

theorem set_rounding_mode_error:
  "(fst (ieee754_set_rounding_mode plat m c) \<noteq> 0 \<longleftrightarrow> ieee754_to_fe_round m \<notin> plat)
   \<and> (fst (ieee754_set_rounding_mode plat m c) \<noteq> 0 \<longrightarrow>
        snd (ieee754_set_rounding_mode plat m c) = c)
   \<and> (conforming plat \<longrightarrow> fst (ieee754_set_rounding_mode plat m c) = 0)"
  by (auto simp: round_defs)

theorem set_rounding_mode_error_witness:
  "ieee754_to_fe_round IEEE754_ROUND_UPWARD \<notin> nearest_only_platform
   \<and> fst (ieee754_set_rounding_mode nearest_only_platform IEEE754_ROUND_UPWARD fresh_ctx) \<noteq> 0
   \<and> snd (ieee754_set_rounding_mode nearest_only_platform IEEE754_ROUND_UPWARD fresh_ctx) =
      fresh_ctx
   \<and> conforming std_platform
   \<and> fst (ieee754_set_rounding_mode std_platform IEEE754_ROUND_UPWARD fresh_ctx) = 0"
proof -
  have a: "ieee754_to_fe_round IEEE754_ROUND_UPWARD \<notin> nearest_only_platform"
    by (simp add: ieee754_to_fe_round_def nearest_only_platform_def enum_defs)
  have b: "conforming std_platform"
    by (simp add: conforming_def std_platform_def)
  show ?thesis
    using set_rounding_mode_error [of nearest_only_platform IEEE754_ROUND_UPWARD fresh_ctx]
      set_rounding_mode_error [of std_platform IEEE754_ROUND_UPWARD fresh_ctx] a b
    by simp
qed


section \<open>Signaling comparisons: properties\<close>

lemmas cmp_d_defs =
  ieee754_signaling_equal_def ieee754_signaling_less_def ieee754_signaling_less_equal_def
  ieee754_signaling_greater_def ieee754_signaling_greater_equal_def
  ieee754_signaling_not_equal_def

lemmas cmp_f_defs =
  ieee754_signaling_equal_f_def ieee754_signaling_less_f_def
  ieee754_signaling_less_equal_f_def ieee754_signaling_greater_f_def
  ieee754_signaling_greater_equal_f_def ieee754_signaling_not_equal_f_def

lemmas operand_defs =
  d_one_def d_two_def d_qnan_def d_snan_def d_inf_def
  f_one_def f_two_def f_qnan_def f_snan_def f_inf_def

text \<open>Every NaN is quiet or signaling, and only NaNs are.\<close>

lemma fp_isnan_quiet_or_signaling:
  "fp_isnan eb fb n \<longleftrightarrow> fp_is_quiet_nan eb fb n \<or> fp_is_signaling_nan eb fb n"
  by (auto simp: fp_is_quiet_nan_def fp_is_signaling_nan_def)

lemma isnan_d_quiet_or_signaling: "isnan_d x \<longleftrightarrow> quiet_nan_d x \<or> signaling_nan_d x"
  by (simp add: isnan_d_def quiet_nan_d_def signaling_nan_d_def fp_isnan_quiet_or_signaling)

lemma isnan_f_quiet_or_signaling: "isnan_f x \<longleftrightarrow> quiet_nan_f x \<or> signaling_nan_f x"
  by (simp add: isnan_f_def quiet_nan_f_def signaling_nan_f_def fp_isnan_quiet_or_signaling)

text \<open>The two branches of every comparator, through the family.\<close>

lemma signaling_d_nan:
  "isnan_d x \<or> isnan_d y \<Longrightarrow>
   signaling_d P x y c =
     (unordered_result P,
      ieee754_raise_exception IEEE754_EXCEPTION_INVALID (feraiseexcept {FE_INVALID} c))"
  by (cases P) (simp_all add: cmp_d_defs)

lemma signaling_f_nan:
  "isnan_f x \<or> isnan_f y \<Longrightarrow>
   signaling_f P x y c =
     (unordered_result P,
      ieee754_raise_exception IEEE754_EXCEPTION_INVALID (feraiseexcept {FE_INVALID} c))"
  by (cases P) (simp_all add: cmp_f_defs)

lemma signaling_d_ordered:
  "\<not> isnan_d x \<Longrightarrow> \<not> isnan_d y \<Longrightarrow>
   signaling_d P x y c = (of_bool (compares P (decode_d x) (decode_d y)), c)"
  by (cases P) (simp_all add: cmp_d_defs)

lemma signaling_f_ordered:
  "\<not> isnan_f x \<Longrightarrow> \<not> isnan_f y \<Longrightarrow>
   signaling_f P x y c = (of_bool (compares P (decode_f x) (decode_f y)), c)"
  by (cases P) (simp_all add: cmp_f_defs)

lemma compares_finite: "compares P (Finite a) (Finite b) = numeric P a b"
  by (cases P) (auto simp: fp_le_def fp_gt_def fp_ge_def fp_ne_def)

text \<open>What the NaN branch does to a thread whose five store flags are clear.\<close>

lemma raise_invalid_on_clear_store:
  assumes "store_flags c = zero_state"
  defines "c' \<equiv> ieee754_raise_exception IEEE754_EXCEPTION_INVALID (feraiseexcept {FE_INVALID} c)"
  shows "fst (ieee754_get_exceptions c') = no_flags\<lparr>ex_invalid := 1\<rparr>"
    and "fst (ieee754_test_exception IEEE754_EXCEPTION_INVALID c') = 1"
    and "g \<in> flag_ids \<Longrightarrow> g \<noteq> IEEE754_EXCEPTION_INVALID \<Longrightarrow> fst (ieee754_test_exception g c') = 0"
    and "fe_flags c' = insert FE_INVALID (fe_flags c)"
    and "fe_rounding c' = fe_rounding c"
    and "ex_invalid (ieee754_test_fpu_exceptions c') = 1"
  using assms(1) unfolding c'_def
  by (auto simp: store_defs feraiseexcept_def fetestexcept_def ieee754_test_fpu_exceptions_def
      FE_ALL_EXCEPT_def flag_ids_def enum_defs zero_state_def no_flags_def
      split: option.splits)

text \<open>
  Claim C1. For operands of either width of which at least one is a NaN, quiet or
  signaling, the comparators \<open>eq\<close>, \<open>lt\<close>, \<open>le\<close>, \<open>gt\<close>, \<open>ge\<close> each return 0 and \<open>ne\<close> returns
  1, whatever the other operand and the thread's state are.
\<close>

theorem nan_operand_unordered_result:
  "(quiet_nan_d x \<or> signaling_nan_d x \<or> quiet_nan_d y \<or> signaling_nan_d y \<longrightarrow>
      fst (ieee754_signaling_equal x y c) = 0
    \<and> fst (ieee754_signaling_less x y c) = 0
    \<and> fst (ieee754_signaling_less_equal x y c) = 0
    \<and> fst (ieee754_signaling_greater x y c) = 0
    \<and> fst (ieee754_signaling_greater_equal x y c) = 0
    \<and> fst (ieee754_signaling_not_equal x y c) = 1)
   \<and> (quiet_nan_f u \<or> signaling_nan_f u \<or> quiet_nan_f v \<or> signaling_nan_f v \<longrightarrow>
      fst (ieee754_signaling_equal_f u v c) = 0
    \<and> fst (ieee754_signaling_less_f u v c) = 0
    \<and> fst (ieee754_signaling_less_equal_f u v c) = 0
    \<and> fst (ieee754_signaling_greater_f u v c) = 0
    \<and> fst (ieee754_signaling_greater_equal_f u v c) = 0
    \<and> fst (ieee754_signaling_not_equal_f u v c) = 1)"
proof (intro conjI impI)
  assume "quiet_nan_d x \<or> signaling_nan_d x \<or> quiet_nan_d y \<or> signaling_nan_d y"
  then have n: "isnan_d x \<or> isnan_d y"
    by (auto simp: isnan_d_quiet_or_signaling)
  from n show "fst (ieee754_signaling_equal x y c) = 0"
    by (simp add: ieee754_signaling_equal_def)
  from n show "fst (ieee754_signaling_less x y c) = 0"
    by (simp add: ieee754_signaling_less_def)
  from n show "fst (ieee754_signaling_less_equal x y c) = 0"
    by (simp add: ieee754_signaling_less_equal_def)
  from n show "fst (ieee754_signaling_greater x y c) = 0"
    by (simp add: ieee754_signaling_greater_def)
  from n show "fst (ieee754_signaling_greater_equal x y c) = 0"
    by (simp add: ieee754_signaling_greater_equal_def)
  from n show "fst (ieee754_signaling_not_equal x y c) = 1"
    by (simp add: ieee754_signaling_not_equal_def)
next
  assume "quiet_nan_f u \<or> signaling_nan_f u \<or> quiet_nan_f v \<or> signaling_nan_f v"
  then have n: "isnan_f u \<or> isnan_f v"
    by (auto simp: isnan_f_quiet_or_signaling)
  from n show "fst (ieee754_signaling_equal_f u v c) = 0"
    by (simp add: ieee754_signaling_equal_f_def)
  from n show "fst (ieee754_signaling_less_f u v c) = 0"
    by (simp add: ieee754_signaling_less_f_def)
  from n show "fst (ieee754_signaling_less_equal_f u v c) = 0"
    by (simp add: ieee754_signaling_less_equal_f_def)
  from n show "fst (ieee754_signaling_greater_f u v c) = 0"
    by (simp add: ieee754_signaling_greater_f_def)
  from n show "fst (ieee754_signaling_greater_equal_f u v c) = 0"
    by (simp add: ieee754_signaling_greater_equal_f_def)
  from n show "fst (ieee754_signaling_not_equal_f u v c) = 1"
    by (simp add: ieee754_signaling_not_equal_f_def)
qed

text \<open>
  Instances: (quiet NaN, 1.0), (1.0, signaling NaN) and (NaN, NaN) in double
  precision, and (signaling NaN, 1.0) and (2.0, quiet NaN) in single precision.
\<close>

theorem nan_operand_unordered_result_witness:
  "quiet_nan_d d_qnan \<and> signaling_nan_d d_snan \<and> signaling_nan_f f_snan \<and> quiet_nan_f f_qnan
   \<and> fst (ieee754_signaling_equal d_qnan d_one used_ctx) = 0
   \<and> fst (ieee754_signaling_not_equal d_qnan d_one used_ctx) = 1
   \<and> fst (ieee754_signaling_less_equal d_one d_snan used_ctx) = 0
   \<and> fst (ieee754_signaling_not_equal d_one d_snan used_ctx) = 1
   \<and> fst (ieee754_signaling_greater_equal d_qnan d_qnan fresh_ctx) = 0
   \<and> fst (ieee754_signaling_not_equal d_qnan d_qnan fresh_ctx) = 1
   \<and> fst (ieee754_signaling_less_f f_snan f_one fresh_ctx) = 0
   \<and> fst (ieee754_signaling_not_equal_f f_two f_qnan fresh_ctx) = 1"
proof -
  have a: "quiet_nan_d d_qnan" "signaling_nan_d d_snan"
    by (simp_all add: quiet_nan_d_def signaling_nan_d_def fp_defs operand_defs)
  have b: "signaling_nan_f f_snan" "quiet_nan_f f_qnan"
    by (simp_all add: quiet_nan_f_def signaling_nan_f_def fp_defs operand_defs)
  show ?thesis
    using nan_operand_unordered_result [of d_qnan d_one used_ctx f_snan f_one]
      nan_operand_unordered_result [of d_one d_snan used_ctx f_two f_qnan]
      nan_operand_unordered_result [of d_qnan d_qnan fresh_ctx f_snan f_one]
      nan_operand_unordered_result [of d_qnan d_qnan fresh_ctx f_two f_qnan] a b
    by simp
qed

text \<open>
  Claim C2. For every comparator of either width and every operand pair with a NaN,
  called by a thread whose five store flags are clear (as they are after \<open>clearAll\<close>):
  afterwards \<open>getAll\<close> reports invalid = 1 and the other four 0, \<open>test(Invalid)\<close> is 1 and
  \<open>test\<close> of every other defined flag is 0, and the hardware flags are the previous ones
  with \<open>FE_INVALID\<close> added, so that the hardware inspector reports invalid = 1.
\<close>

theorem nan_operand_raises_invalid_only:
  "(store_flags c = zero_state \<and> (isnan_d x \<or> isnan_d y) \<longrightarrow>
      fst (ieee754_get_exceptions (snd (signaling_d P x y c))) = no_flags\<lparr>ex_invalid := 1\<rparr>
    \<and> fst (ieee754_test_exception IEEE754_EXCEPTION_INVALID (snd (signaling_d P x y c))) = 1
    \<and> (\<forall>g\<in>flag_ids. g \<noteq> IEEE754_EXCEPTION_INVALID \<longrightarrow>
         fst (ieee754_test_exception g (snd (signaling_d P x y c))) = 0)
    \<and> fe_flags (snd (signaling_d P x y c)) = insert FE_INVALID (fe_flags c)
    \<and> ex_invalid (ieee754_test_fpu_exceptions (snd (signaling_d P x y c))) = 1)
   \<and> (store_flags c = zero_state \<and> (isnan_f u \<or> isnan_f v) \<longrightarrow>
      fst (ieee754_get_exceptions (snd (signaling_f P u v c))) = no_flags\<lparr>ex_invalid := 1\<rparr>
    \<and> fst (ieee754_test_exception IEEE754_EXCEPTION_INVALID (snd (signaling_f P u v c))) = 1
    \<and> (\<forall>g\<in>flag_ids. g \<noteq> IEEE754_EXCEPTION_INVALID \<longrightarrow>
         fst (ieee754_test_exception g (snd (signaling_f P u v c))) = 0)
    \<and> fe_flags (snd (signaling_f P u v c)) = insert FE_INVALID (fe_flags c)
    \<and> ex_invalid (ieee754_test_fpu_exceptions (snd (signaling_f P u v c))) = 1)"
proof (intro conjI impI ballI; elim conjE)
  assume z: "store_flags c = zero_state" and n: "isnan_d x \<or> isnan_d y"
  note r = raise_invalid_on_clear_store [OF z]
  show "fst (ieee754_get_exceptions (snd (signaling_d P x y c))) = no_flags\<lparr>ex_invalid := 1\<rparr>"
    by (simp add: signaling_d_nan [OF n] r(1))
  show "fst (ieee754_test_exception IEEE754_EXCEPTION_INVALID (snd (signaling_d P x y c))) = 1"
    by (simp add: signaling_d_nan [OF n] r(2))
  show "fe_flags (snd (signaling_d P x y c)) = insert FE_INVALID (fe_flags c)"
    by (simp add: signaling_d_nan [OF n] r(4))
  show "ex_invalid (ieee754_test_fpu_exceptions (snd (signaling_d P x y c))) = 1"
    by (simp add: signaling_d_nan [OF n] r(6))
  show "fst (ieee754_test_exception g (snd (signaling_d P x y c))) = 0"
    if "g \<in> flag_ids" "g \<noteq> IEEE754_EXCEPTION_INVALID" for g
    using that by (simp add: signaling_d_nan [OF n] r(3))
next
  assume z: "store_flags c = zero_state" and n: "isnan_f u \<or> isnan_f v"
  note r = raise_invalid_on_clear_store [OF z]
  show "fst (ieee754_get_exceptions (snd (signaling_f P u v c))) = no_flags\<lparr>ex_invalid := 1\<rparr>"
    by (simp add: signaling_f_nan [OF n] r(1))
  show "fst (ieee754_test_exception IEEE754_EXCEPTION_INVALID (snd (signaling_f P u v c))) = 1"
    by (simp add: signaling_f_nan [OF n] r(2))
  show "fe_flags (snd (signaling_f P u v c)) = insert FE_INVALID (fe_flags c)"
    by (simp add: signaling_f_nan [OF n] r(4))
  show "ex_invalid (ieee754_test_fpu_exceptions (snd (signaling_f P u v c))) = 1"
    by (simp add: signaling_f_nan [OF n] r(6))
  show "fst (ieee754_test_exception g (snd (signaling_f P u v c))) = 0"
    if "g \<in> flag_ids" "g \<noteq> IEEE754_EXCEPTION_INVALID" for g
    using that by (simp add: signaling_f_nan [OF n] r(3))
qed

text \<open>
  An instance: clear a store that held \<open>invalid\<close> and \<open>inexact\<close>, then compare a quiet
  NaN with 1.0 (\<open>eq\<close>, double) and a signaling NaN with itself (\<open>ne\<close>, float).
\<close>

theorem nan_operand_raises_invalid_only_witness:
  "store_flags (ieee754_clear_all_exceptions used_ctx) = zero_state
   \<and> isnan_d d_qnan \<and> isnan_f f_snan
   \<and> fst (ieee754_get_exceptions
        (snd (signaling_d P_eq d_qnan d_one (ieee754_clear_all_exceptions used_ctx)))) =
      \<lparr>ex_invalid = 1, ex_divByZero = 0, ex_overflow = 0, ex_underflow = 0, ex_inexact = 0\<rparr>
   \<and> fe_flags (snd (signaling_d P_eq d_qnan d_one (ieee754_clear_all_exceptions used_ctx))) =
      {FE_INVALID, FE_INEXACT}
   \<and> fst (ieee754_test_exception IEEE754_EXCEPTION_INVALID
        (snd (signaling_f P_ne f_snan f_snan (ieee754_clear_all_exceptions used_ctx)))) = 1
   \<and> fst (ieee754_test_exception IEEE754_EXCEPTION_INEXACT
        (snd (signaling_f P_ne f_snan f_snan (ieee754_clear_all_exceptions used_ctx)))) = 0"
proof -
  have z: "store_flags (ieee754_clear_all_exceptions used_ctx) = zero_state"
    by (rule clear_all_store_flags)
  have n: "isnan_d d_qnan" "isnan_f f_snan"
    by (simp_all add: isnan_d_def isnan_f_def fp_defs operand_defs)
  have g: "IEEE754_EXCEPTION_INEXACT \<in> flag_ids"
    "IEEE754_EXCEPTION_INEXACT \<noteq> IEEE754_EXCEPTION_INVALID"
    by (simp_all add: flag_ids_def enum_defs)
  have h: "fe_flags (ieee754_clear_all_exceptions used_ctx) = {FE_INEXACT}"
    by (simp add: store_defs ctx_defs)
  show ?thesis
    using nan_operand_raises_invalid_only
        [of "ieee754_clear_all_exceptions used_ctx" d_qnan d_one P_eq f_snan f_snan]
      nan_operand_raises_invalid_only
        [of "ieee754_clear_all_exceptions used_ctx" d_qnan d_one P_ne f_snan f_snan]
      z n g h
    by (simp add: no_flags_def)
qed

text \<open>
  Claim C3. For every comparator of either width and operands neither of which is a NaN,
  the call returns the result of the ordinary comparison (1 when it holds, 0 when it
  does not; for two finite operands, the comparison of the two numbers they stand for)
  and returns the thread's context exactly as it was, software store and hardware
  environment alike; after \<open>clearAll\<close>, \<open>getAll\<close> still reports all five flags 0.
\<close>

theorem ordered_operands_compare_without_flags:
  "(\<not> isnan_d x \<and> \<not> isnan_d y \<longrightarrow>
      signaling_d P x y c = (of_bool (compares P (decode_d x) (decode_d y)), c)
    \<and> (\<forall>a b. decode_d x = Finite a \<and> decode_d y = Finite b \<longrightarrow>
         fst (signaling_d P x y c) = of_bool (numeric P a b))
    \<and> fst (ieee754_get_exceptions
         (snd (signaling_d P x y (ieee754_clear_all_exceptions c)))) = no_flags
    \<and> ieee754_test_fpu_exceptions (snd (signaling_d P x y c)) = ieee754_test_fpu_exceptions c)
   \<and> (\<not> isnan_f u \<and> \<not> isnan_f v \<longrightarrow>
      signaling_f P u v c = (of_bool (compares P (decode_f u) (decode_f v)), c)
    \<and> (\<forall>a b. decode_f u = Finite a \<and> decode_f v = Finite b \<longrightarrow>
         fst (signaling_f P u v c) = of_bool (numeric P a b))
    \<and> fst (ieee754_get_exceptions
         (snd (signaling_f P u v (ieee754_clear_all_exceptions c)))) = no_flags
    \<and> ieee754_test_fpu_exceptions (snd (signaling_f P u v c)) = ieee754_test_fpu_exceptions c)"
proof -
  have clr: "fst (ieee754_get_exceptions (ieee754_clear_all_exceptions c)) = no_flags"
    by (simp add: store_defs zero_state_def no_flags_def split: option.splits)
  show ?thesis
    by (simp add: signaling_d_ordered signaling_f_ordered compares_finite clr)
qed

text \<open>
  An instance: compare 1.0 with 2.0 in double precision and +infinity with 1.0 in single
  precision, on a thread with flags set in its store and in hardware.
\<close>

theorem ordered_operands_compare_without_flags_witness:
  "\<not> isnan_d d_one \<and> \<not> isnan_d d_two \<and> \<not> isnan_f f_inf \<and> \<not> isnan_f f_one
   \<and> decode_d d_one = Finite 1 \<and> decode_d d_two = Finite 2
   \<and> signaling_d P_lt d_one d_two used_ctx = (1, used_ctx)
   \<and> signaling_d P_ge d_one d_two used_ctx = (0, used_ctx)
   \<and> signaling_f P_gt f_inf f_one used_ctx = (1, used_ctx)
   \<and> signaling_f P_eq f_inf f_one used_ctx = (0, used_ctx)
   \<and> fst (ieee754_get_exceptions
        (snd (signaling_d P_lt d_one d_two (ieee754_clear_all_exceptions used_ctx)))) = no_flags"
proof -
  have n: "\<not> isnan_d d_one" "\<not> isnan_d d_two" "\<not> isnan_f f_inf" "\<not> isnan_f f_one"
    by (simp_all add: isnan_d_def isnan_f_def fp_defs operand_defs)
  have d: "decode_d d_one = Finite 1" "decode_d d_two = Finite 2"
    by (simp_all add: decode_d_def fp_defs operand_defs)
  have f: "decode_f f_inf = Infinity False" "decode_f f_one = Finite 1"
    by (simp_all add: decode_f_def fp_defs operand_defs)
  show ?thesis
    using ordered_operands_compare_without_flags [of d_one d_two P_lt used_ctx f_inf f_one]
      ordered_operands_compare_without_flags [of d_one d_two P_ge used_ctx f_inf f_one]
      ordered_operands_compare_without_flags [of d_one d_two P_gt used_ctx f_inf f_one]
      ordered_operands_compare_without_flags [of d_one d_two P_eq used_ctx f_inf f_one]
      n d f
    by (simp add: fp_gt_def fp_ge_def fp_le_def)
qed

section \<open>Threads: isolation\<close>

lemmas process_defs =
  calloc_state_def get_thread_state_by_def write_state_def ieee754_raise_exception_by_def
  ieee754_test_exception_by_def ieee754_clear_exception_by_def ieee754_get_exceptions_by_def
  ieee754_clear_all_exceptions_by_def

lemma heap_ok_init: "heap_ok init_process"
  by (simp add: heap_ok_def init_process_def)

text \<open>
  What \<open>get_thread_state\<close> gives a thread: a pointer that is now stored for it, leading to
  the block it saw before (a zeroed one on first access), with the heap in order and the
  other threads' view unchanged.
\<close>

lemma get_thread_state_by_props:
  assumes "heap_ok p" and "get_thread_state_by t p = (a, p1)"
  shows "specific p1 t = Some a"
    and "heap_ok p1"
    and "u \<noteq> t \<Longrightarrow> thread_store p1 u = thread_store p u"
    and "heap p1 a = (case thread_store p t of None \<Rightarrow> zero_state | Some st \<Rightarrow> st)"
proof -
  show "specific p1 t = Some a"
    using assms(2)
    by (auto simp: get_thread_state_by_def calloc_state_def split: option.splits)
  show "heap p1 a = (case thread_store p t of None \<Rightarrow> zero_state | Some st \<Rightarrow> st)"
    using assms(2)
    by (auto simp: get_thread_state_by_def calloc_state_def thread_store_def
        split: option.splits)
  show "heap_ok p1"
  proof (cases "specific p t")
    case None
    then have p1: "p1 = p\<lparr>heap := (heap p)(next_addr p := zero_state),
        next_addr := Suc (next_addr p), specific := (specific p)(t \<mapsto> next_addr p)\<rparr>"
      using assms(2) by (auto simp: get_thread_state_by_def calloc_state_def)
    have below: "\<And>v b. specific p v = Some b \<Longrightarrow> b < next_addr p"
      using assms(1) by (simp add: heap_ok_def)
    have inj: "\<And>v w b. specific p v = Some b \<Longrightarrow> specific p w = Some b \<Longrightarrow> v = w"
      using assms(1) unfolding heap_ok_def by blast
    show ?thesis
      unfolding heap_ok_def p1
      using below inj by (fastforce simp: less_Suc_eq split: if_splits)
  next
    case (Some b)
    then have "p1 = p"
      using assms(2) by (simp add: get_thread_state_by_def)
    then show ?thesis
      using assms(1) by simp
  qed
  show "thread_store p1 u = thread_store p u" if "u \<noteq> t"
  proof (cases "specific p t")
    case None
    then have p1: "p1 = p\<lparr>heap := (heap p)(next_addr p := zero_state),
        next_addr := Suc (next_addr p), specific := (specific p)(t \<mapsto> next_addr p)\<rparr>"
      using assms(2) by (auto simp: get_thread_state_by_def calloc_state_def)
    have below: "\<And>b. specific p u = Some b \<Longrightarrow> b \<noteq> next_addr p"
      using assms(1) by (fastforce simp: heap_ok_def)
    show ?thesis
      using that below by (cases "specific p u") (simp_all add: p1 thread_store_def)
  next
    case (Some b)
    then have "p1 = p"
      using assms(2) by (simp add: get_thread_state_by_def)
    then show ?thesis by simp
  qed
qed

text \<open>A write through a thread's own pointer changes that thread's block and no other.\<close>

lemma write_state_props:
  assumes "heap_ok p1" and "specific p1 t = Some a"
  shows "heap_ok (write_state a upd p1)"
    and "thread_store (write_state a upd p1) u =
           (if u = t then Some (upd (heap p1 a)) else thread_store p1 u)"
proof -
  show "heap_ok (write_state a upd p1)"
    using assms(1) by (simp add: heap_ok_def write_state_def)
  have inj: "\<And>b. specific p1 u = Some b \<Longrightarrow> u \<noteq> t \<Longrightarrow> b \<noteq> a"
    using assms unfolding heap_ok_def by blast
  show "thread_store (write_state a upd p1) u =
      (if u = t then Some (upd (heap p1 a)) else thread_store p1 u)"
    using assms(2) inj
    by (cases "specific p1 u") (auto simp: thread_store_def write_state_def)
qed

lemma get_thread_state_props:
  assumes "get_thread_state c = (st, c1)"
  shows "st = (case tls_state c of None \<Rightarrow> zero_state | Some s \<Rightarrow> s)"
    and "tls_state c1 = Some st"
  using assms by (auto simp: get_thread_state_def split: option.splits)

lemmas api_by_defs =
  ieee754_raise_exception_by_def ieee754_test_exception_by_def ieee754_clear_exception_by_def
  ieee754_get_exceptions_by_def ieee754_clear_all_exceptions_by_def

lemmas api_defs =
  ieee754_raise_exception_def ieee754_test_exception_def ieee754_clear_exception_def
  ieee754_get_exceptions_def ieee754_clear_all_exceptions_def

text \<open>Every call keeps the heap in order.\<close>

lemma store_effect_by_heap_ok:
  assumes "heap_ok p"
  shows "heap_ok (store_effect_by call t p)"
proof -
  obtain a p1 where g: "get_thread_state_by t p = (a, p1)"
    by (cases "get_thread_state_by t p")
  note gp = get_thread_state_by_props [OF assms g]
  note wp = write_state_props [OF gp(2) gp(1)]
  show ?thesis
    by (cases call) (simp_all add: api_by_defs g gp wp)
qed

text \<open>A call of thread \<open>t\<close> leaves what any other thread sees as it was.\<close>

lemma store_effect_by_other:
  assumes "heap_ok p" and "u \<noteq> t"
  shows "thread_store (store_effect_by call t p) u = thread_store p u"
proof -
  obtain a p1 where g: "get_thread_state_by t p = (a, p1)"
    by (cases "get_thread_state_by t p")
  note gp = get_thread_state_by_props [OF assms(1) g]
  note wp = write_state_props [OF gp(2) gp(1)]
  show ?thesis
    using assms(2) by (cases call) (simp_all add: api_by_defs g gp wp)
qed

text \<open>What the calling thread sees afterwards is what its per-thread function computes.\<close>

lemma store_effect_by_same:
  assumes "heap_ok p" and "tls_state c = thread_store p t"
  shows "thread_store (store_effect_by call t p) t = tls_state (store_effect call c)"
proof -
  obtain a p1 where g: "get_thread_state_by t p = (a, p1)"
    by (cases "get_thread_state_by t p")
  obtain st c1 where h: "get_thread_state c = (st, c1)"
    by (cases "get_thread_state c")
  note gp = get_thread_state_by_props [OF assms(1) g]
  note wp = write_state_props [OF gp(2) gp(1)]
  note hp = get_thread_state_props [OF h]
  have st: "heap p1 a = st"
    by (simp add: gp(4) hp(1) assms(2))
  have cur: "thread_store p1 t = Some st"
    using gp(1) st by (simp add: thread_store_def)
  show ?thesis
    by (cases call) (simp_all add: api_by_defs api_defs g h wp st cur hp(2))
qed

lemma test_by_agrees:
  assumes "heap_ok p" and "tls_state c = thread_store p t"
  shows "fst (ieee754_test_exception_by f t p) = fst (ieee754_test_exception f c)"
proof -
  obtain a p1 where g: "get_thread_state_by t p = (a, p1)"
    by (cases "get_thread_state_by t p")
  obtain st c1 where h: "get_thread_state c = (st, c1)"
    by (cases "get_thread_state c")
  note gp = get_thread_state_by_props [OF assms(1) g]
  note hp = get_thread_state_props [OF h]
  have st: "heap p1 a = st"
    by (simp add: gp(4) hp(1) assms(2))
  show ?thesis
    by (simp add: ieee754_test_exception_by_def ieee754_test_exception_def g h st)
qed

lemma run_schedule_heap_ok: "heap_ok p \<Longrightarrow> heap_ok (run_schedule sched p)"
  by (induction sched arbitrary: p) (auto simp: store_effect_by_heap_ok)

lemma run_schedule_projection:
  "heap_ok p \<Longrightarrow> tls_state c = thread_store p t \<Longrightarrow>
   thread_store (run_schedule sched p) t = tls_state (thread_run (calls_of t sched) c)"
proof (induction sched arbitrary: p c)
  case Nil
  then show ?case by (simp add: calls_of_def)
next
  case (Cons step sched)
  obtain u call where step: "step = (u, call)"
    by (cases step)
  have ok: "heap_ok (store_effect_by call u p)"
    using Cons.prems(1) by (rule store_effect_by_heap_ok)
  show ?case
  proof (cases "u = t")
    case True
    have "tls_state (store_effect call c) = thread_store (store_effect_by call u p) t"
      using store_effect_by_same [OF Cons.prems(1), of c t call] Cons.prems(2) True by simp
    from Cons.IH [OF ok this] show ?thesis
      using True by (simp add: step calls_of_def)
  next
    case False
    have "tls_state c = thread_store (store_effect_by call u p) t"
      using store_effect_by_other [OF Cons.prems(1), of t u call] Cons.prems(2) False by simp
    from Cons.IH [OF ok this] show ?thesis
      using False by (simp add: step calls_of_def)
  qed
qed

text \<open>
  Claim C9. With the calls of the threads interleaved in any order, starting from a heap
  in which the stored pointers are allocated and distinct (as at process start), the
  flags a thread \<open>B\<close> sees at the end are the ones its own calls alone produce from what
  it saw at the start: no call of another thread is visible to it, and none of its
  calls changes what another thread \<open>A\<close> sees. In particular, after \<open>A\<close> raises Overflow,
  a different thread \<open>B\<close> whose Overflow flag tested clear still tests it clear.
\<close>

theorem thread_store_isolation:
  assumes "heap_ok p"
  shows "heap_ok (run_schedule sched p)
       \<and> (\<forall>c. tls_state c = thread_store p B \<longrightarrow>
            thread_store (run_schedule sched p) B = tls_state (thread_run (calls_of B sched) c))
       \<and> (A \<noteq> B \<longrightarrow>
            thread_store (store_effect_by call B p) A = thread_store p A
          \<and> fst (ieee754_test_exception_by IEEE754_EXCEPTION_OVERFLOW B
                 (ieee754_raise_exception_by IEEE754_EXCEPTION_OVERFLOW A p)) =
            fst (ieee754_test_exception_by IEEE754_EXCEPTION_OVERFLOW B p))"
proof (intro conjI allI impI)
  show "heap_ok (run_schedule sched p)"
    using assms by (rule run_schedule_heap_ok)
next
  fix c :: thread_ctx
  assume "tls_state c = thread_store p B"
  with assms show
    "thread_store (run_schedule sched p) B = tls_state (thread_run (calls_of B sched) c)"
    by (rule run_schedule_projection)
next
  assume "A \<noteq> B"
  with assms show "thread_store (store_effect_by call B p) A = thread_store p A"
    by (intro store_effect_by_other) auto
next
  assume ab: "A \<noteq> B"
  define q where "q = store_effect_by (Raise IEEE754_EXCEPTION_OVERFLOW) A p"
  define c where "c = \<lparr>tls_state = thread_store p B, fe_flags = {}, fe_rounding = FE_TONEAREST\<rparr>"
  have okq: "heap_ok q"
    unfolding q_def using assms by (rule store_effect_by_heap_ok)
  have same: "thread_store q B = thread_store p B"
    unfolding q_def using assms ab by (intro store_effect_by_other) auto
  have "fst (ieee754_test_exception_by IEEE754_EXCEPTION_OVERFLOW B q) =
        fst (ieee754_test_exception IEEE754_EXCEPTION_OVERFLOW c)"
    using okq by (rule test_by_agrees) (simp add: c_def same)
  moreover have "fst (ieee754_test_exception_by IEEE754_EXCEPTION_OVERFLOW B p) =
        fst (ieee754_test_exception IEEE754_EXCEPTION_OVERFLOW c)"
    using assms by (rule test_by_agrees) (simp add: c_def)
  ultimately show "fst (ieee754_test_exception_by IEEE754_EXCEPTION_OVERFLOW B
        (ieee754_raise_exception_by IEEE754_EXCEPTION_OVERFLOW A p)) =
      fst (ieee754_test_exception_by IEEE754_EXCEPTION_OVERFLOW B p)"
    by (simp add: q_def)
qed

text \<open>
  An instance: from process start, thread 0 raises Overflow and thread 1 raises Inexact;
  thread 1 tests Overflow as 0, thread 0 tests it as 1 and tests Inexact as 0.
\<close>

theorem thread_store_isolation_witness:
  "heap_ok init_process \<and> (0::nat) \<noteq> 1
   \<and> fst (ieee754_test_exception_by IEEE754_EXCEPTION_OVERFLOW 1 init_process) = 0
   \<and> fst (ieee754_test_exception_by IEEE754_EXCEPTION_OVERFLOW 1
        (ieee754_raise_exception_by IEEE754_EXCEPTION_OVERFLOW 0 init_process)) = 0
   \<and> fst (ieee754_test_exception_by IEEE754_EXCEPTION_OVERFLOW 0
        (run_schedule [(0, Raise IEEE754_EXCEPTION_OVERFLOW), (1, Raise IEEE754_EXCEPTION_INEXACT)]
          init_process)) = 1
   \<and> fst (ieee754_test_exception_by IEEE754_EXCEPTION_INEXACT 0
        (run_schedule [(0, Raise IEEE754_EXCEPTION_OVERFLOW), (1, Raise IEEE754_EXCEPTION_INEXACT)]
          init_process)) = 0
   \<and> thread_store
        (run_schedule [(0, Raise IEEE754_EXCEPTION_OVERFLOW), (1, Raise IEEE754_EXCEPTION_INEXACT)]
          init_process) 1 = Some (zero_state\<lparr>inexact := 1\<rparr>)"
proof -
  have a: "fst (ieee754_test_exception_by IEEE754_EXCEPTION_OVERFLOW 1 init_process) = 0"
    by (simp add: process_defs init_process_def zero_state_def enum_defs)
  have b: "fst (ieee754_test_exception_by IEEE754_EXCEPTION_OVERFLOW 0
        (run_schedule [(0, Raise IEEE754_EXCEPTION_OVERFLOW), (1, Raise IEEE754_EXCEPTION_INEXACT)]
          init_process)) = 1"
    "fst (ieee754_test_exception_by IEEE754_EXCEPTION_INEXACT 0
        (run_schedule [(0, Raise IEEE754_EXCEPTION_OVERFLOW), (1, Raise IEEE754_EXCEPTION_INEXACT)]
          init_process)) = 0"
    by (simp_all add: process_defs init_process_def zero_state_def enum_defs)
  have c: "tls_state fresh_ctx = thread_store init_process 1"
    by (simp add: fresh_ctx_def thread_store_def init_process_def)
  have d: "tls_state (thread_run
        (calls_of 1 [(0, Raise IEEE754_EXCEPTION_OVERFLOW), (1, Raise IEEE754_EXCEPTION_INEXACT)])
        fresh_ctx) = Some (zero_state\<lparr>inexact := 1\<rparr>)"
    by (simp add: calls_of_def store_defs fresh_ctx_def enum_defs)
  show ?thesis
    using thread_store_isolation [OF heap_ok_init,
        of "[(0, Raise IEEE754_EXCEPTION_OVERFLOW), (1, Raise IEEE754_EXCEPTION_INEXACT)]" 1 0
          GetAll]
      heap_ok_init a b c d
    by simp
qed


end
